theory Spec2Isabelle
  imports Main "HOL-Library.List_Lexorder" "HOL-Library.Char_ord" "HOL-Library.AList"
begin

section \<open>Go strings\<close>

text \<open>
  A Go string is modelled as a \<^typ>\<open>string\<close>, one \<^typ>\<open>char\<close> per byte. The functions
  of package \<open>strings\<close> that the store and the projection call are written out here.
  \<open>strings.Index\<close> returns \<open>-1\<close> when there is no occurrence; the model returns
  \<open>None\<close> there and \<open>Some i\<close> for the byte offset \<open>i\<close> otherwise.
  \<open>strings.TrimSpace\<close> removes the ASCII white space \<open>\t \n \v \f \r\<close> and the blank,
  which is what its byte-wise fast path tests; white space outside ASCII (several bytes in
  UTF-8) is not part of the model. \<open>strings.ToLower\<close> is modelled on the ASCII letters
  in the same way. \<open>TrimRightSpace\<close> is \<open>strings.TrimRightFunc(s, unicode.IsSpace)\<close>,
  the right half of \<open>TrimSpace\<close>; the program does not call it, the statements about
  bodies do.
\<close>

definition HasPrefix :: "string \<Rightarrow> string \<Rightarrow> bool" where
  "HasPrefix s pre \<longleftrightarrow> length pre \<le> length s \<and> take (length pre) s = pre"

definition HasSuffix :: "string \<Rightarrow> string \<Rightarrow> bool" where
  "HasSuffix s suf \<longleftrightarrow> length suf \<le> length s \<and> drop (length s - length suf) s = suf"

fun Index :: "string \<Rightarrow> string \<Rightarrow> nat option" where
  "Index [] sep = (if sep = [] then Some 0 else None)"
| "Index (c # t) sep =
     (if HasPrefix (c # t) sep then Some 0 else map_option Suc (Index t sep))"


definition isSpace :: "char \<Rightarrow> bool" where
  "isSpace c \<longleftrightarrow> c \<in> {CHR 0x09, CHR 0x0A, CHR 0x0B, CHR 0x0C, CHR 0x0D, CHR 0x20}"

definition TrimSpace :: "string \<Rightarrow> string" where
  "TrimSpace s = rev (dropWhile isSpace (rev (dropWhile isSpace s)))"


definition TrimLeft :: "string \<Rightarrow> string \<Rightarrow> string" where
  "TrimLeft s cutset = dropWhile (\<lambda>c. c \<in> set cutset) s"

definition TrimRight :: "string \<Rightarrow> string \<Rightarrow> string" where
  "TrimRight s cutset = rev (dropWhile (\<lambda>c. c \<in> set cutset) (rev s))"



section \<open>The goal model\<close>

text \<open>
  \<open>GoalStatus\<close> and \<open>Horizon\<close> are string types in the source, so a goal read from
  disk can carry any string there; the three named constants of each are kept as
  definitions. \<open>time.Time\<close> is an abstract instant. The fields \<open>Children\<close> and
  \<open>Parent\<close> of the source's struct are pointers; the owned children are the second
  component of \<open>GoalNode\<close> below, and the back reference is not used by any
  function modelled here.
\<close>

type_synonym GoalStatus = string
type_synonym Horizon = string
type_synonym Time = nat

definition StatusIncomplete :: GoalStatus where "StatusIncomplete = ''incomplete''"
definition StatusInProgress :: GoalStatus where "StatusInProgress = ''in-progress''"
definition StatusComplete :: GoalStatus where "StatusComplete = ''complete''"

definition HorizonToday :: Horizon where "HorizonToday = ''today''"
definition HorizonTomorrow :: Horizon where "HorizonTomorrow = ''tomorrow''"
definition HorizonFuture :: Horizon where "HorizonFuture = ''future''"

record Goal =
  Title :: string
  Status :: GoalStatus
  Horizon :: Horizon
  Created :: Time
  Updated :: Time
  Tags :: "string list"
  Links :: "string \<rightharpoonup> string"
  ChildrenOrder :: "string list"
  Body :: string
  Slug :: string
  Path :: string
  FilePath :: string

datatype GoalNode = GoalNode Goal "GoalNode list"

definition zeroGoal :: Goal where
  "zeroGoal = \<lparr>Title = [], Status = [], Horizon = [], Created = 0, Updated = 0, Tags = [],
     Links = Map.empty, ChildrenOrder = [], Body = [], Slug = [], Path = [], FilePath = []\<rparr>"

datatype error =
    ParseError string
  | SerializeError string
  | NotFound string
  | Conflict string
  | InvalidOperation string
  | IOError string

section \<open>The frontmatter codec\<close>

text \<open>
  \<open>yaml.Unmarshal\<close> and \<open>yaml.Marshal\<close> belong to the library \<open>gopkg.in/yaml.v3\<close>,
  not to this program. They are parameters of the model: \<open>yaml_Unmarshal\<close> decodes
  a block into a goal whose fields outside the block keep their zero value, or returns the
  library's error message; \<open>yaml_Marshal\<close> encodes the block of a goal.
\<close>

record yaml =
  yaml_Unmarshal :: "string \<Rightarrow> string + Goal"
  yaml_Marshal :: "Goal \<Rightarrow> string + string"

definition frontmatterDelimiter :: string where
  "frontmatterDelimiter = ''---''"

definition ParseFrontmatter :: "yaml \<Rightarrow> string \<Rightarrow> error + Goal" where
  "ParseFrontmatter Y content0 =
     (let content = TrimSpace content0 in
      if \<not> HasPrefix content frontmatterDelimiter then Inr (zeroGoal\<lparr>Body := content\<rparr>)
      else
        let rest = drop (length frontmatterDelimiter) content in
        case Index rest (''\<newline>'' @ frontmatterDelimiter) of
          None \<Rightarrow> Inl (ParseError ''unclosed frontmatter delimiter'')
        | Some idx \<Rightarrow>
            let yamlContent = take idx rest;
                body = drop (idx + length (''\<newline>'' @ frontmatterDelimiter)) rest;
                body = TrimLeft body ''\<newline>''
            in (case yaml_Unmarshal Y yamlContent of
                  Inl e \<Rightarrow> Inl (ParseError (''parsing frontmatter YAML: '' @ e))
                | Inr goal \<Rightarrow> Inr (goal\<lparr>Body := body\<rparr>)))"

definition SerializeFrontmatter :: "yaml \<Rightarrow> Goal \<Rightarrow> error + string" where
  "SerializeFrontmatter Y g =
     (case yaml_Marshal Y g of
        Inl e \<Rightarrow> Inl (SerializeError (''serializing frontmatter YAML: '' @ e))
      | Inr yamlBytes \<Rightarrow>
          Inr (frontmatterDelimiter @ ''\<newline>'' @ TrimRight yamlBytes ''\<newline>''
               @ ''\<newline>'' @ frontmatterDelimiter @ ''\<newline>''
               @ (if Body g \<noteq> [] then
                    ''\<newline>'' @ Body g
                    @ (if \<not> HasSuffix (Body g) ''\<newline>'' then ''\<newline>'' else [])
                  else [])))"

subsection \<open>A small codec for running the model\<close>

text \<open>
  To run the model on concrete files a codec is needed. \<open>demoYaml\<close> reads and writes
  the block style that the library emits, for the keys \<open>title\<close>, \<open>status\<close>,
  \<open>horizon\<close> and \<open>children_order\<close> (omitted when empty, as \<open>omitempty\<close>
  asks); it stands in for the library in the examples only.
\<close>

fun splitLines :: "string \<Rightarrow> string list" where
  "splitLines [] = [[]]"
| "splitLines (c # t) =
     (if c = CHR 0x0A then [] # splitLines t
      else (case splitLines t of [] \<Rightarrow> [[c]] | l # ls \<Rightarrow> (c # l) # ls))"

definition demoField :: "Goal \<Rightarrow> string \<Rightarrow> Goal" where
  "demoField g line =
     (if HasPrefix line ''title: '' then g\<lparr>Title := drop 7 line\<rparr>
      else if HasPrefix line ''status: '' then g\<lparr>Status := drop 8 line\<rparr>
      else if HasPrefix line ''horizon: '' then g\<lparr>Horizon := drop 9 line\<rparr>
      else if HasPrefix line ''    - '' then g\<lparr>ChildrenOrder := ChildrenOrder g @ [drop 6 line]\<rparr>
      else g)"

definition demoUnmarshal :: "string \<Rightarrow> string + Goal" where
  "demoUnmarshal s = Inr (foldl demoField zeroGoal (splitLines s))"

definition demoMarshal :: "Goal \<Rightarrow> string + string" where
  "demoMarshal g =
     Inr (''title: '' @ Title g @ ''\<newline>'' @ ''status: '' @ Status g @ ''\<newline>''
          @ (if Horizon g = [] then [] else ''horizon: '' @ Horizon g @ ''\<newline>'')
          @ (if ChildrenOrder g = [] then []
             else ''children_order:\<newline>''
                  @ concat (map (\<lambda>c. ''    - '' @ c @ ''\<newline>'') (ChildrenOrder g))))"

definition demoYaml :: yaml where
  "demoYaml = \<lparr>yaml_Unmarshal = demoUnmarshal, yaml_Marshal = demoMarshal\<rparr>"

section \<open>Paths (package filepath, Unix)\<close>

text \<open>
  The separator is \<open>/\<close>. \<open>Clean\<close> works on the elements between separators: empty
  elements and \<open>.\<close> are dropped, \<open>..\<close> removes the element before it, is dropped at the
  root of a rooted path and is kept at the start of a relative one; the empty result is \<open>.\<close>.
  An element is \<open>plain\<close> when it is none of the three special ones.
\<close>

fun splitPath :: "string \<Rightarrow> string list" where
  "splitPath [] = [[]]"
| "splitPath (c # t) =
     (if c = CHR ''/'' then [] # splitPath t
      else (case splitPath t of [] \<Rightarrow> [[c]] | l # ls \<Rightarrow> (c # l) # ls))"

fun joinPath :: "string list \<Rightarrow> string" where
  "joinPath [] = []"
| "joinPath [x] = x"
| "joinPath (x # y # ys) = x @ ''/'' @ joinPath (y # ys)"

definition plain :: "string \<Rightarrow> bool" where
  "plain c \<longleftrightarrow> c \<noteq> [] \<and> c \<noteq> ''.'' \<and> c \<noteq> ''..''"

definition cleanStep :: "bool \<Rightarrow> string list \<Rightarrow> string \<Rightarrow> string list" where
  "cleanStep rooted out c =
     (if c = [] \<or> c = ''.'' then out
      else if c = ''..'' then
        (if out \<noteq> [] \<and> last out \<noteq> ''..'' then butlast out
         else if rooted then out
         else out @ [''..''])
      else out @ [c])"

definition cleanElems :: "bool \<Rightarrow> string list \<Rightarrow> string list" where
  "cleanElems rooted cs = foldl (cleanStep rooted) [] cs"

definition Clean :: "string \<Rightarrow> string" where
  "Clean path =
     (let rooted = HasPrefix path ''/'';
          out = cleanElems rooted (splitPath path)
      in if rooted then ''/'' @ joinPath out
         else if out = [] then ''.''
         else joinPath out)"

definition Join :: "string list \<Rightarrow> string" where
  "Join elem =
     (case dropWhile (\<lambda>e. e = []) elem of
        [] \<Rightarrow> []
      | e # es \<Rightarrow> Clean (joinPath (e # es)))"

definition Base :: "string \<Rightarrow> string" where
  "Base path0 =
     (if path0 = [] then ''.''
      else
        let path = TrimRight path0 ''/'';
            path = rev (takeWhile (\<lambda>c. c \<noteq> CHR ''/'') (rev path))
        in if path = [] then ''/'' else path)"

definition Dir :: "string \<Rightarrow> string" where
  "Dir path = Clean (rev (dropWhile (\<lambda>c. c \<noteq> CHR ''/'') (rev path)))"

section \<open>The file system (package os)\<close>

text \<open>
  The data directory is a tree of directories and regular files. A path names the node
  reached from the root of the tree by the elements of the cleaned path; a relative path is
  taken from the root as well. Symbolic links, permissions and device errors are not part
  of the model: an operation fails only for the reasons written here.
  \<open>os.ReadDir\<close> lists a directory sorted by file name.
\<close>

datatype fsnode = File string | Directory "(string \<times> fsnode) list"

datatype oserr = ENOENT | ENOTDIR | EISDIR | EEXIST | EINVAL

definition IsNotExist :: "oserr \<Rightarrow> bool" where
  "IsNotExist e \<longleftrightarrow> e = ENOENT"

definition resolve :: "string \<Rightarrow> string list" where
  "resolve path = cleanElems True (splitPath path)"

fun walk :: "fsnode \<Rightarrow> string list \<Rightarrow> oserr + fsnode" where
  "walk n [] = Inr n"
| "walk (File d) (c # cs) = Inl ENOTDIR"
| "walk (Directory es) (c # cs) =
     (case map_of es c of None \<Rightarrow> Inl ENOENT | Some n \<Rightarrow> walk n cs)"

fun put :: "string list \<Rightarrow> fsnode \<Rightarrow> fsnode \<Rightarrow> fsnode" where
  "put [] new n = new"
| "put (c # cs) new (File d) = File d"
| "put (c # cs) new (Directory es) =
     (if cs = [] then Directory (AList.update c new es)
      else (case map_of es c of
              None \<Rightarrow> Directory es
            | Some n \<Rightarrow> Directory (AList.update c (put cs new n) es)))"

fun remove :: "string list \<Rightarrow> fsnode \<Rightarrow> fsnode" where
  "remove [] n = n"
| "remove (c # cs) (File d) = File d"
| "remove (c # cs) (Directory es) =
     (if cs = [] then Directory (AList.delete c es)
      else (case map_of es c of
              None \<Rightarrow> Directory es
            | Some n \<Rightarrow> Directory (AList.update c (remove cs n) es)))"

definition isDirNode :: "fsnode \<Rightarrow> bool" where
  "isDirNode n = (case n of Directory es \<Rightarrow> True | File d \<Rightarrow> False)"

definition os_Stat :: "fsnode \<Rightarrow> string \<Rightarrow> oserr + fsnode" where
  "os_Stat fs name = walk fs (resolve name)"

definition os_ReadFile :: "fsnode \<Rightarrow> string \<Rightarrow> oserr + string" where
  "os_ReadFile fs name =
     (case walk fs (resolve name) of
        Inl e \<Rightarrow> Inl e
      | Inr (Directory es) \<Rightarrow> Inl EISDIR
      | Inr (File d) \<Rightarrow> Inr d)"

definition os_ReadDir :: "fsnode \<Rightarrow> string \<Rightarrow> oserr + (string \<times> bool) list" where
  "os_ReadDir fs name =
     (case walk fs (resolve name) of
        Inl e \<Rightarrow> Inl e
      | Inr (File d) \<Rightarrow> Inl ENOTDIR
      | Inr (Directory es) \<Rightarrow> Inr (map (\<lambda>(n, x). (n, isDirNode x)) (sort_key fst es)))"

definition os_WriteFile :: "fsnode \<Rightarrow> string \<Rightarrow> string \<Rightarrow> oserr option \<times> fsnode" where
  "os_WriteFile fs name data =
     (let cs = resolve name in
      if cs = [] then (Some EISDIR, fs)
      else (case walk fs (butlast cs) of
              Inl e \<Rightarrow> (Some e, fs)
            | Inr (File d) \<Rightarrow> (Some ENOTDIR, fs)
            | Inr (Directory es) \<Rightarrow>
                (case map_of es (last cs) of
                   Some (Directory es') \<Rightarrow> (Some EISDIR, fs)
                 | _ \<Rightarrow> (None, put cs (File data) fs))))"

fun mkdirs :: "string list \<Rightarrow> fsnode \<Rightarrow> oserr + fsnode" where
  "mkdirs [] (Directory es) = Inr (Directory es)"
| "mkdirs cs (File d) = Inl ENOTDIR"
| "mkdirs (c # cs) (Directory es) =
     (case mkdirs cs (case map_of es c of None \<Rightarrow> Directory [] | Some n \<Rightarrow> n) of
        Inl e \<Rightarrow> Inl e
      | Inr n' \<Rightarrow> Inr (Directory (AList.update c n' es)))"

definition os_MkdirAll :: "fsnode \<Rightarrow> string \<Rightarrow> oserr option \<times> fsnode" where
  "os_MkdirAll fs name =
     (case mkdirs (resolve name) fs of
        Inl e \<Rightarrow> (Some e, fs)
      | Inr fs' \<Rightarrow> (None, fs'))"

text \<open>
  \<open>os.Rename\<close>: the old name must exist; an existing directory at the new name is
  refused, an existing file is replaced by a file only; the parent of the new name must
  be a directory; a directory cannot be moved below itself.
\<close>

definition os_Rename :: "fsnode \<Rightarrow> string \<Rightarrow> string \<Rightarrow> oserr option \<times> fsnode" where
  "os_Rename fs oldname newname =
     (let src = resolve oldname; dst = resolve newname in
      case walk fs src of
        Inl e \<Rightarrow> (Some e, fs)
      | Inr node \<Rightarrow>
          if src = [] \<or> dst = [] then (Some EINVAL, fs)
          else (case walk fs dst of
                  Inr (Directory es) \<Rightarrow> (Some EEXIST, fs)
                | Inr (File d) \<Rightarrow>
                    if isDirNode node then (Some ENOTDIR, fs)
                    else (None, put dst node (remove src fs))
                | Inl e \<Rightarrow>
                    (case walk fs (butlast dst) of
                       Inl e' \<Rightarrow> (Some e', fs)
                     | Inr (File d) \<Rightarrow> (Some ENOTDIR, fs)
                     | Inr (Directory es) \<Rightarrow>
                         if take (length src) dst = src then (Some EINVAL, fs)
                         else (None, put dst node (remove src fs)))))"

section \<open>The store\<close>

text \<open>
  Every operation takes the file system and returns it with its result. \<open>time.Now()\<close>
  is the parameter \<open>now\<close>. A Go \<open>map[string]bool\<close> is a map to \<^typ>\<open>bool\<close> read
  with \<open>has\<close>, which gives \<open>False\<close> for a missing key as indexing does in Go.
\<close>

record Store =
  Root :: string

definition has :: "(string \<rightharpoonup> bool) \<Rightarrow> string \<Rightarrow> bool" where
  "has m k = (case m k of None \<Rightarrow> False | Some b \<Rightarrow> b)"

definition GoalsDir :: "Store \<Rightarrow> string" where
  "GoalsDir s = Join [Root s, ''goals'']"

definition LoadGoal :: "yaml \<Rightarrow> Store \<Rightarrow> fsnode \<Rightarrow> string \<Rightarrow> error + Goal" where
  "LoadGoal Y s fs goalPath =
     (let filePath = Join [GoalsDir s, goalPath, ''goal.md''] in
      case os_ReadFile fs filePath of
        Inl e \<Rightarrow> Inl (NotFound (''reading goal '' @ goalPath))
      | Inr data \<Rightarrow>
          (case ParseFrontmatter Y data of
             Inl e \<Rightarrow> Inl (ParseError (''parsing goal '' @ goalPath))
           | Inr goal \<Rightarrow>
               Inr (goal\<lparr>Slug := Base goalPath, Path := goalPath, FilePath := filePath\<rparr>)))"

definition SaveGoal ::
  "yaml \<Rightarrow> Store \<Rightarrow> Time \<Rightarrow> fsnode \<Rightarrow> Goal \<Rightarrow> error option \<times> Goal \<times> fsnode" where
  "SaveGoal Y s now fs g0 =
     (let g = g0\<lparr>Updated := now\<rparr>;
          dir = Join [GoalsDir s, Path g]
      in case os_MkdirAll fs dir of
           (Some e, fs1) \<Rightarrow> (Some (IOError ''creating goal directory''), g, fs1)
         | (None, fs1) \<Rightarrow>
             (case SerializeFrontmatter Y g of
                Inl e \<Rightarrow> (Some e, g, fs1)
              | Inr content \<Rightarrow>
                  let filePath = Join [dir, ''goal.md''];
                      g = g\<lparr>FilePath := filePath\<rparr>
                  in (case os_WriteFile fs1 filePath content of
                        (Some e, fs2) \<Rightarrow> (Some (IOError ''writing goal.md''), g, fs2)
                      | (None, fs2) \<Rightarrow> (None, g, fs2))))"

definition ToggleStatus ::
  "yaml \<Rightarrow> Store \<Rightarrow> Time \<Rightarrow> fsnode \<Rightarrow> string \<Rightarrow> (error + Goal) \<times> fsnode" where
  "ToggleStatus Y s now fs goalPath =
     (case LoadGoal Y s fs goalPath of
        Inl e \<Rightarrow> (Inl e, fs)
      | Inr goal \<Rightarrow>
          let goal = (if Status goal = StatusIncomplete then goal\<lparr>Status := StatusInProgress\<rparr>
                      else if Status goal = StatusInProgress then goal\<lparr>Status := StatusComplete\<rparr>
                      else goal\<lparr>Status := StatusIncomplete\<rparr>)
          in (case SaveGoal Y s now fs goal of
                (Some e, g, fs') \<Rightarrow> (Inl e, fs')
              | (None, g, fs') \<Rightarrow> (Inr g, fs')))"




subsection \<open>Sibling order\<close>

text \<open>
  \<open>hintOfTop\<close> is the block that reads the ordering file of the top level,
  \<open>goals/goal.md\<close>, in \<open>getSiblingOrder\<close> and in \<open>LoadGoalTree\<close>: the hint is empty
  when the file is missing or does not parse. \<open>mergeOrder\<close> is the merge that ends
  \<open>getSiblingOrder\<close>, with its maps \<open>seen\<close> and \<open>dirSet\<close>.
\<close>

definition hintOfTop :: "yaml \<Rightarrow> Store \<Rightarrow> fsnode \<Rightarrow> string list" where
  "hintOfTop Y s fs =
     (let topGoalPath = Join [GoalsDir s, ''goal.md''] in
      case os_ReadFile fs topGoalPath of
        Inl e \<Rightarrow> []
      | Inr data \<Rightarrow>
          (case ParseFrontmatter Y data of
             Inl e \<Rightarrow> []
           | Inr topGoal \<Rightarrow> ChildrenOrder topGoal))"

definition mergeOrder :: "string list \<Rightarrow> string list \<Rightarrow> string list" where
  "mergeOrder order dirNames =
     (if length order > 0 then
        let dirSet = foldl (\<lambda>m d. m(d \<mapsto> True)) Map.empty dirNames;
            (result, seen) =
               foldl (\<lambda>(result, seen) name.
                        if has dirSet name then (result @ [name], seen(name \<mapsto> True))
                        else (result, seen))
                     ([], Map.empty) order
        in foldl (\<lambda>result name. if \<not> has seen name then result @ [name] else result)
                 result dirNames
      else dirNames)"

definition getSiblingOrder ::
  "yaml \<Rightarrow> Store \<Rightarrow> fsnode \<Rightarrow> string \<Rightarrow> error + string list" where
  "getSiblingOrder Y s fs parentPath =
     (let dir = (if parentPath = [] then GoalsDir s else Join [GoalsDir s, parentPath]) in
      case os_ReadDir fs dir of
        Inl e \<Rightarrow> Inl (IOError (''reading directory '' @ dir))
      | Inr entries \<Rightarrow>
          let dirNames = map fst (filter snd entries);
              order = (if parentPath = [] then hintOfTop Y s fs
                       else (case LoadGoal Y s fs parentPath of
                               Inl e \<Rightarrow> []
                             | Inr goal \<Rightarrow> ChildrenOrder goal))
          in Inr (mergeOrder order dirNames))"

definition saveChildrenOrder ::
  "yaml \<Rightarrow> Store \<Rightarrow> Time \<Rightarrow> fsnode \<Rightarrow> string \<Rightarrow> string list \<Rightarrow> error option \<times> fsnode"
  where
  "saveChildrenOrder Y s now fs parentPath order =
     (if parentPath = [] then
        let topGoalPath = Join [GoalsDir s, ''goal.md''];
            goal = (case os_ReadFile fs topGoalPath of
                      Inl e \<Rightarrow> zeroGoal
                    | Inr data \<Rightarrow>
                        (case ParseFrontmatter Y data of
                           Inl e \<Rightarrow> zeroGoal
                         | Inr g \<Rightarrow> g));
            goal = goal\<lparr>ChildrenOrder := order\<rparr>
        in (case SerializeFrontmatter Y goal of
              Inl e \<Rightarrow> (Some e, fs)
            | Inr content \<Rightarrow>
                (case os_WriteFile fs topGoalPath content of
                   (Some e, fs') \<Rightarrow> (Some (IOError ''writing goal.md''), fs')
                 | (None, fs') \<Rightarrow> (None, fs')))
      else
        let goal = (case LoadGoal Y s fs parentPath of
                      Inl e \<Rightarrow> zeroGoal\<lparr>Title := Base parentPath, Status := StatusIncomplete,
                                        Slug := Base parentPath, Path := parentPath\<rparr>
                    | Inr g \<Rightarrow> g);
            goal = goal\<lparr>ChildrenOrder := order\<rparr>
        in (case SaveGoal Y s now fs goal of (e, g, fs') \<Rightarrow> (e, fs')))"

definition removeFromChildrenOrder ::
  "yaml \<Rightarrow> Store \<Rightarrow> Time \<Rightarrow> fsnode \<Rightarrow> string \<Rightarrow> string \<Rightarrow> fsnode" where
  "removeFromChildrenOrder Y s now fs parentPath slug =
     (case getSiblingOrder Y s fs parentPath of
        Inl e \<Rightarrow> fs
      | Inr order \<Rightarrow>
          let newOrder = filter (\<lambda>name. name \<noteq> slug) order
          in snd (saveChildrenOrder Y s now fs parentPath newOrder))"

definition addToChildrenOrder ::
  "yaml \<Rightarrow> Store \<Rightarrow> Time \<Rightarrow> fsnode \<Rightarrow> string \<Rightarrow> string \<Rightarrow> fsnode" where
  "addToChildrenOrder Y s now fs parentPath slug =
     (case getSiblingOrder Y s fs parentPath of
        Inl e \<Rightarrow> fs
      | Inr order \<Rightarrow>
          if list_ex (\<lambda>name. name = slug) order then fs
          else snd (saveChildrenOrder Y s now fs parentPath (order @ [slug])))"

definition MoveGoal ::
  "yaml \<Rightarrow> Store \<Rightarrow> Time \<Rightarrow> fsnode \<Rightarrow> string \<Rightarrow> string \<Rightarrow> error option \<times> fsnode" where
  "MoveGoal Y s now fs goalPath newParentPath =
     (let slug = Base goalPath;
          oldParentPath = (if Dir goalPath = ''.'' then [] else Dir goalPath)
      in if newParentPath = goalPath \<or> HasPrefix newParentPath (goalPath @ ''/'') then
           (Some (InvalidOperation ''cannot move a goal into itself or a descendant''), fs)
         else
           let newGoalPath = (if newParentPath = [] then slug else Join [newParentPath, slug]);
               dstDir = Join [GoalsDir s, newGoalPath]
           in (case os_Stat fs dstDir of
                 Inr n \<Rightarrow> (Some (Conflict (''goal '' @ newGoalPath @ '' already exists at destination'')), fs)
               | Inl e \<Rightarrow>
                   let dstParentDir = Join [GoalsDir s, newParentPath];
                       missing = (newParentPath \<noteq> [] \<and>
                                  (case os_Stat fs dstParentDir of
                                     Inl e' \<Rightarrow> IsNotExist e'
                                   | Inr n \<Rightarrow> False))
                   in if missing then
                        (Some (NotFound (''destination parent '' @ newParentPath @ '' does not exist'')), fs)
                      else
                        let srcDir = Join [GoalsDir s, goalPath] in
                        (case os_Rename fs srcDir dstDir of
                           (Some e', fs1) \<Rightarrow> (Some (IOError ''moving goal directory''), fs1)
                         | (None, fs1) \<Rightarrow>
                             let fs2 = removeFromChildrenOrder Y s now fs1 oldParentPath slug;
                                 fs3 = addToChildrenOrder Y s now fs2 newParentPath slug
                             in (None, fs3))))"

text \<open>
  The last block of \<open>loadGoalRecursive\<close>, which puts the loaded children of a goal in
  order, and the same block of \<open>LoadGoalTree\<close> for the top level: \<open>childMap\<close> holds the
  loaded child of each directory name, \<open>defaultOrder\<close> the names as \<open>os.ReadDir\<close> lists
  them. A child (a pointer in the source) is an optional value, \<open>None\<close> for \<open>nil\<close>.
  The recursion of the loader over the directories is not part of the model.
\<close>

definition orderChildren ::
  "string list \<Rightarrow> (string \<rightharpoonup> 'g) \<Rightarrow> string list \<Rightarrow> 'g option list" where
  "orderChildren order childMap defaultOrder =
     (if length order > 0 then
        let (children, seen) =
               foldl (\<lambda>(children, seen) name.
                        case childMap name of
                          Some child \<Rightarrow> (children @ [Some child], seen(name \<mapsto> True))
                        | None \<Rightarrow> (children, seen))
                     ([], Map.empty) order
        in foldl (\<lambda>children name.
                    if \<not> has seen name then children @ [childMap name] else children)
                 children defaultOrder
      else foldl (\<lambda>children name. children @ [childMap name]) [] defaultOrder)"

section \<open>The projection\<close>

text \<open>
  A row carries a pointer to its goal; here it carries the goal with its children. Of
  the queue only the items are read. \<open>sectionHeader\<close> is the literal row of a section
  header in \<open>FlattenWithHorizonGroups\<close>.
\<close>

record Queue =
  Items :: "string list"

record TreeItem =
  ID :: string
  ParentID :: string
  Name :: string
  Goal :: GoalNode
  Depth :: nat
  HasChildren :: bool
  IsExpanded :: bool
  IsSectionHeader :: bool

fun goalOf :: "GoalNode \<Rightarrow> Goal" where
  "goalOf (GoalNode g cs) = g"

definition displayName :: "Goal \<Rightarrow> string" where
  "displayName g = (if Title g \<noteq> [] then Title g else Slug g)"

fun flattenGoals ::
  "GoalNode list \<Rightarrow> nat \<Rightarrow> string \<Rightarrow> (string \<rightharpoonup> bool) \<Rightarrow> TreeItem list \<Rightarrow> TreeItem list"
  where
  "flattenGoals [] depth parentID expandedState result = result"
| "flattenGoals (GoalNode g children # goals) depth parentID expandedState result =
     (let item = \<lparr>ID = Path g, ParentID = parentID, Name = displayName g,
                   Goal = GoalNode g children, Depth = depth,
                   HasChildren = (length children > 0),
                   IsExpanded = has expandedState (Path g),
                   IsSectionHeader = False\<rparr>;
          result = result @ [item];
          result = (if HasChildren item \<and> IsExpanded item
                    then flattenGoals children (depth + 1) (Path g) expandedState result
                    else result)
      in flattenGoals goals depth parentID expandedState result)"

definition FlattenVisibleItems :: "GoalNode list \<Rightarrow> (string \<rightharpoonup> bool) \<Rightarrow> TreeItem list" where
  "FlattenVisibleItems goals expandedState = flattenGoals goals 0 [] expandedState []"

definition sectionHeader :: "string \<Rightarrow> string \<Rightarrow> TreeItem" where
  "sectionHeader hid name =
     \<lparr>ID = hid, ParentID = [], Name = name, Goal = GoalNode zeroGoal [], Depth = 0,
      HasChildren = False, IsExpanded = False, IsSectionHeader = True\<rparr>"

definition FlattenWithHorizonGroups ::
  "GoalNode list \<Rightarrow> (string \<rightharpoonup> bool) \<Rightarrow> TreeItem list" where
  "FlattenWithHorizonGroups goals expandedState =
     (let (today, tomorrow, future) =
            foldl (\<lambda>(today, tomorrow, future) g.
                     if Horizon (goalOf g) = HorizonToday then (today @ [g], tomorrow, future)
                     else if Horizon (goalOf g) = HorizonTomorrow then (today, tomorrow @ [g], future)
                     else (today, tomorrow, future @ [g]))
                  ([], [], []) goals;
          result = [];
          result = (if length today > 0
                    then flattenGoals today 1 ''__header_today'' expandedState
                           (result @ [sectionHeader ''__header_today'' ''TODAY''])
                    else result);
          result = (if length tomorrow > 0
                    then flattenGoals tomorrow 1 ''__header_tomorrow'' expandedState
                           (result @ [sectionHeader ''__header_tomorrow'' ''TOMORROW''])
                    else result);
          result = (if length future > 0
                    then flattenGoals future 1 ''__header_future'' expandedState
                           (result @ [sectionHeader ''__header_future'' ''FUTURE''])
                    else result)
      in result)"

definition FilterVisibleItems ::
  "TreeItem list \<Rightarrow> (string \<rightharpoonup> bool) \<Rightarrow> (string \<rightharpoonup> bool) \<Rightarrow> TreeItem list" where
  "FilterVisibleItems items matchIDs ancestorIDs =
     foldl (\<lambda>result item.
              if has matchIDs (ID item) \<or> has ancestorIDs (ID item) then result @ [item]
              else result)
           [] items"

text \<open>
  The fields of the Bubble Tea model that the search and the projection read or write.
  A \<open>nil\<close> map is \<open>None\<close>; reading a \<open>nil\<close> map gives \<open>False\<close> as reading an empty
  one does.
\<close>

record Model =
  goals :: "GoalNode list"
  queue :: "Queue option"
  visibleItems :: "TreeItem list"
  expandedState :: "string \<rightharpoonup> bool"
  cursor :: int
  activeQueue :: nat
  searchQuery :: string
  searchMatchIDs :: "(string \<rightharpoonup> bool) option"
  searchAncIDs :: "(string \<rightharpoonup> bool) option"

definition mapOf :: "(string \<rightharpoonup> bool) option \<Rightarrow> (string \<rightharpoonup> bool)" where
  "mapOf m = (case m of None \<Rightarrow> Map.empty | Some f \<Rightarrow> f)"







definition rebuildVisible :: "Model \<Rightarrow> Model" where
  "rebuildVisible m =
     (let goalsToShow =
            (case queue m of
               None \<Rightarrow> []
             | Some q \<Rightarrow>
                 if length (Items q) > 0 \<and> activeQueue m < length (Items q) then
                   (case find (\<lambda>g. Slug (goalOf g) = Items q ! activeQueue m) (goals m) of
                      None \<Rightarrow> []
                    | Some g \<Rightarrow> [g])
                 else []);
          items = (if length goalsToShow = 0
                   then FlattenWithHorizonGroups (goals m) (expandedState m)
                   else FlattenVisibleItems goalsToShow (expandedState m));
          items = (if searchQuery m \<noteq> [] \<and> (searchMatchIDs m \<noteq> None \<or> searchAncIDs m \<noteq> None)
                   then FilterVisibleItems items (mapOf (searchMatchIDs m)) (mapOf (searchAncIDs m))
                   else items);
          c = (if cursor m \<ge> int (length items) then int (length items) - 1 else cursor m);
          c = (if c < 0 then 0 else c);
          c = (if c < int (length items) \<and> IsSectionHeader (items ! nat c)
               then (case find (\<lambda>i. \<not> IsSectionHeader (items ! i)) [nat c ..< length items] of
                       None \<Rightarrow> c
                     | Some i \<Rightarrow> int i)
               else c)
      in m\<lparr>visibleItems := items, cursor := c\<rparr>)"

section \<open>The file watcher\<close>








section \<open>Example data\<close>

text \<open>
  A store rooted at \<open>/data\<close> and some trees of files, on which the operations are run in
  the examples that follow the theorems.
\<close>

definition exStore :: Store where
  "exStore = \<lparr>Root = ''/data''\<rparr>"

definition exHinted :: fsnode where
  "exHinted = Directory [(''data'', Directory [(''goals'', Directory
     [(''p'', Directory
        [(''goal.md'', File (''---\<newline>title: p\<newline>status: incomplete\<newline>''
            @ ''children_order:\<newline>    - c\<newline>    - x\<newline>---\<newline>'')),
         (''c'', Directory []), (''a'', Directory []), (''b'', Directory [])])])])]"



definition exOne :: fsnode where
  "exOne = Directory [(''data'', Directory [(''goals'', Directory
     [(''test'', Directory
        [(''goal.md'', File ''---\<newline>title: test\<newline>status: incomplete\<newline>---\<newline>'')])])])]"

definition exFamily :: fsnode where
  "exFamily = Directory [(''data'', Directory [(''goals'', Directory
     [(''parent'', Directory
        [(''goal.md'', File ''---\<newline>title: parent\<newline>status: incomplete\<newline>---\<newline>''),
         (''child'', Directory
            [(''goal.md'', File ''---\<newline>title: child\<newline>status: incomplete\<newline>---\<newline>'')])])])])]"

definition exMove :: fsnode where
  "exMove = Directory [(''data'', Directory [(''goals'', Directory
     [(''alpha'', Directory
        [(''goal.md'', File ''---\<newline>title: alpha\<newline>status: incomplete\<newline>---\<newline>''),
         (''a'', Directory
            [(''goal.md'', File ''---\<newline>title: a\<newline>status: incomplete\<newline>---\<newline>'')]),
         (''z'', Directory
            [(''goal.md'', File ''---\<newline>title: z\<newline>status: incomplete\<newline>---\<newline>'')])]),
      (''m'', Directory
        [(''goal.md'', File ''---\<newline>title: m\<newline>status: incomplete\<newline>---\<newline>'')])])])]"








section \<open>Facts about the string functions\<close>

lemma HasPrefix_iff: "HasPrefix s p \<longleftrightarrow> (\<exists>b. s = p @ b)"
  unfolding HasPrefix_def
  by (metis append_eq_conv_conj append_take_drop_id length_append le_add1)


lemma not_isSpace_dash [simp]: "\<not> isSpace CHR ''-''"
  by (simp add: isSpace_def)


section \<open>Frontmatter: the marker cases\<close>




section \<open>The order merge\<close>

lemma has_empty [simp]: "\<not> has Map.empty n"
  by (simp add: has_def)

lemma foldl_mark: "has (foldl (\<lambda>m d. m(d \<mapsto> True)) m0 ds) n \<longleftrightarrow> has m0 n \<or> n \<in> set ds"
  by (induction ds arbitrary: m0) (auto simp: has_def)

lemma foldl_keep: "foldl (\<lambda>result name. if Q name then result @ [name] else result) r0 xs = r0 @ filter Q xs"
  by (induction xs arbitrary: r0) auto

lemma foldl_take:
  "foldl (\<lambda>(result, seen) name. if P name then (result @ [name], seen(name \<mapsto> True)) else (result, seen))
         (r0, s0) xs = (r0 @ filter P xs, foldl (\<lambda>s n. if P n then s(n \<mapsto> True) else s) s0 xs)"
  by (induction xs arbitrary: r0 s0) simp_all

lemma foldl_mark_if:
  "has (foldl (\<lambda>s n. if P n then s(n \<mapsto> True) else s) s0 xs) n \<longleftrightarrow> has s0 n \<or> (n \<in> set xs \<and> P n)"
  by (induction xs arbitrary: s0) (auto simp: has_def)

lemma mergeOrder_eq:
  "mergeOrder hint dirNames = filter (\<lambda>n. n \<in> set dirNames) hint @ filter (\<lambda>n. n \<notin> set hint) dirNames"
proof (cases "hint = []")
  case True
  then show ?thesis by (simp add: mergeOrder_def)
next
  case False
  let ?dirSet = "foldl (\<lambda>m d. m(d \<mapsto> True)) Map.empty dirNames"
  let ?s = "foldl (\<lambda>s n. if has ?dirSet n then s(n \<mapsto> True) else s) Map.empty hint"
  have d: "\<And>n. has ?dirSet n \<longleftrightarrow> n \<in> set dirNames" by (simp add: foldl_mark)
  have s: "\<And>n. has ?s n \<longleftrightarrow> n \<in> set hint \<and> n \<in> set dirNames"
    by (simp add: foldl_mark_if d)
  have "mergeOrder hint dirNames = filter (has ?dirSet) hint @ filter (\<lambda>n. \<not> has ?s n) dirNames"
    using False by (simp add: mergeOrder_def foldl_take foldl_keep Let_def)
  also have "filter (\<lambda>n. \<not> has ?s n) dirNames = filter (\<lambda>n. n \<notin> set hint) dirNames"
    by (rule filter_cong) (auto simp: s)
  also have "filter (has ?dirSet) hint = filter (\<lambda>n. n \<in> set dirNames) hint"
    by (rule filter_cong) (auto simp: d)
  finally show ?thesis .
qed

lemma foldl_snoc_map: "foldl (\<lambda>children name. children @ [f name]) r0 xs = r0 @ map f xs"
  by (induction xs arbitrary: r0) auto

lemma foldl_keep_map: "foldl (\<lambda>result name. if Q name then result @ [f name] else result) r0 xs = r0 @ map f (filter Q xs)"
  by (induction xs arbitrary: r0) auto

lemma foldl_take_child:
  "foldl (\<lambda>(children, seen) name.
            case childMap name of
              Some child \<Rightarrow> (children @ [Some child], seen(name \<mapsto> True))
            | None \<Rightarrow> (children, seen)) (r0, s0) xs
   = (r0 @ map childMap (filter (\<lambda>n. n \<in> dom childMap) xs),
      foldl (\<lambda>s n. if n \<in> dom childMap then s(n \<mapsto> True) else s) s0 xs)"
  by (induction xs arbitrary: r0 s0) (auto simp: dom_def split: option.splits)

lemma orderChildren_eq:
  assumes "set defaultOrder = dom childMap"
  shows "orderChildren hint childMap defaultOrder =
     map childMap (filter (\<lambda>n. n \<in> set defaultOrder) hint @ filter (\<lambda>n. n \<notin> set hint) defaultOrder)"
proof (cases "hint = []")
  case True
  then show ?thesis by (simp add: orderChildren_def foldl_snoc_map)
next
  case False
  let ?s = "foldl (\<lambda>s n. if n \<in> dom childMap then s(n \<mapsto> True) else s) Map.empty hint"
  have s: "\<And>n. has ?s n \<longleftrightarrow> n \<in> set hint \<and> n \<in> dom childMap"
    by (simp add: foldl_mark_if)
  have "orderChildren hint childMap defaultOrder =
      map childMap (filter (\<lambda>n. n \<in> dom childMap) hint)
      @ map childMap (filter (\<lambda>n. \<not> has ?s n) defaultOrder)"
    using False by (simp add: orderChildren_def foldl_take_child foldl_keep_map Let_def)
  also have "filter (\<lambda>n. \<not> has ?s n) defaultOrder = filter (\<lambda>n. n \<notin> set hint) defaultOrder"
    by (rule filter_cong) (use assms in \<open>auto simp: s\<close>)
  finally show ?thesis using assms by simp
qed

text \<open>
  Claim C1. The sibling order computed from a hint and the directory names is the
  entries of the hint that name a directory, in hint order, followed by the directories
  that the hint does not name, in directory order. This holds for the merge of
  \<open>getSiblingOrder\<close>, for what \<open>getSiblingOrder\<close> returns from the level it reads,
  and for the children that the loader attaches to a goal (and to the top level), given
  that every directory listed has a loaded child. The two examples of the specification
  are instances.
\<close>

theorem order_merge:
  "mergeOrder hint dirNames =
     filter (\<lambda>n. n \<in> set dirNames) hint @ filter (\<lambda>n. n \<notin> set hint) dirNames
   \<and> (\<forall>r. getSiblingOrder Y s fs parentPath = Inr r \<longrightarrow>
        (\<exists>entries order.
           os_ReadDir fs (if parentPath = [] then GoalsDir s else Join [GoalsDir s, parentPath])
             = Inr entries
           \<and> order = (if parentPath = [] then hintOfTop Y s fs
                       else (case LoadGoal Y s fs parentPath of
                               Inl e \<Rightarrow> [] | Inr goal \<Rightarrow> ChildrenOrder goal))
           \<and> r = filter (\<lambda>n. n \<in> set (map fst (filter snd entries))) order
                  @ filter (\<lambda>n. n \<notin> set order) (map fst (filter snd entries))))
   \<and> (set defaultOrder = dom childMap \<longrightarrow>
        orderChildren hint childMap defaultOrder =
          map childMap (filter (\<lambda>n. n \<in> set defaultOrder) hint
                        @ filter (\<lambda>n. n \<notin> set hint) defaultOrder))
   \<and> mergeOrder [''c'', ''a''] [''a'', ''b'', ''c''] = [''c'', ''a'', ''b'']
   \<and> mergeOrder [''c'', ''x''] [''a'', ''b'', ''c''] = [''c'', ''a'', ''b'']"
proof (intro conjI allI impI)
  show "mergeOrder hint dirNames =
     filter (\<lambda>n. n \<in> set dirNames) hint @ filter (\<lambda>n. n \<notin> set hint) dirNames"
    by (rule mergeOrder_eq)
next
  fix r assume g: "getSiblingOrder Y s fs parentPath = Inr r"
  let ?dir = "if parentPath = [] then GoalsDir s else Join [GoalsDir s, parentPath]"
  from g obtain entries where e: "os_ReadDir fs ?dir = Inr entries"
    by (cases "os_ReadDir fs ?dir") (auto simp: getSiblingOrder_def Let_def)
  with g show "\<exists>entries order.
           os_ReadDir fs ?dir = Inr entries
           \<and> order = (if parentPath = [] then hintOfTop Y s fs
                       else (case LoadGoal Y s fs parentPath of
                               Inl e \<Rightarrow> [] | Inr goal \<Rightarrow> ChildrenOrder goal))
           \<and> r = filter (\<lambda>n. n \<in> set (map fst (filter snd entries))) order
                  @ filter (\<lambda>n. n \<notin> set order) (map fst (filter snd entries))"
    by (auto simp: getSiblingOrder_def Let_def mergeOrder_eq)
next
  assume "set defaultOrder = dom childMap"
  then show "orderChildren hint childMap defaultOrder =
          map childMap (filter (\<lambda>n. n \<in> set defaultOrder) hint
                        @ filter (\<lambda>n. n \<notin> set hint) defaultOrder)"
    by (rule orderChildren_eq)
next
  show "mergeOrder [''c'', ''a''] [''a'', ''b'', ''c''] = [''c'', ''a'', ''b'']"
    by (simp add: mergeOrder_eq)
next
  show "mergeOrder [''c'', ''x''] [''a'', ''b'', ''c''] = [''c'', ''a'', ''b'']"
    by (simp add: mergeOrder_eq)
qed


theorem order_merge_witness:
  "getSiblingOrder demoYaml exStore exHinted ''p'' = Inr [''c'', ''a'', ''b'']
   \<and> (\<exists>entries. os_ReadDir exHinted (Join [GoalsDir exStore, ''p'']) = Inr entries
         \<and> map fst (filter snd entries) = [''a'', ''b'', ''c''])
   \<and> set [''a'', ''b'', ''c''] = dom (map_of [(''a'', 1::nat), (''b'', 2), (''c'', 3)])
   \<and> orderChildren [''c'', ''x''] (map_of [(''a'', 1::nat), (''b'', 2), (''c'', 3)])
        [''a'', ''b'', ''c''] = [Some 3, Some 1, Some 2]"
proof -
  note m = order_merge [where hint = "[''c'', ''x'']" and Y = demoYaml and s = exStore
      and fs = exHinted and parentPath = "''p''" and defaultOrder = "[''a'', ''b'', ''c'']"
      and childMap = "map_of [(''a'', 1::nat), (''b'', 2), (''c'', 3)]"]
  have g: "getSiblingOrder demoYaml exStore exHinted ''p'' = Inr [''c'', ''a'', ''b'']"
    by code_simp
  have e: "os_ReadDir exHinted (Join [GoalsDir exStore, ''p''])
      = Inr [(''a'', True), (''b'', True), (''c'', True), (''goal.md'', False)]"
    by code_simp
  have d: "set [''a'', ''b'', ''c''] = dom (map_of [(''a'', 1::nat), (''b'', 2), (''c'', 3)])"
    by auto
  from m d have "orderChildren [''c'', ''x''] (map_of [(''a'', 1::nat), (''b'', 2), (''c'', 3)])
        [''a'', ''b'', ''c''] = map (map_of [(''a'', 1::nat), (''b'', 2), (''c'', 3)])
          (filter (\<lambda>n. n \<in> set [''a'', ''b'', ''c'']) [''c'', ''x'']
           @ filter (\<lambda>n. n \<notin> set [''c'', ''x'']) [''a'', ''b'', ''c''])"
    by blast
  then have o: "orderChildren [''c'', ''x''] (map_of [(''a'', 1::nat), (''b'', 2), (''c'', 3)])
        [''a'', ''b'', ''c''] = [Some 3, Some 1, Some 2]"
    by simp
  from m g have "\<exists>entries.
      os_ReadDir exHinted (if ''p'' = [] then GoalsDir exStore else Join [GoalsDir exStore, ''p''])
        = Inr entries"
    by blast
  then have e': "\<exists>entries. os_ReadDir exHinted (Join [GoalsDir exStore, ''p'']) = Inr entries
         \<and> map fst (filter snd entries) = [''a'', ''b'', ''c'']"
    using e by simp
  show ?thesis using g e' d o by blast
qed

section \<open>Facts about paths\<close>

lemma splitPath_nonempty [simp]: "splitPath s \<noteq> []"
  by (induction s) (auto split: list.splits)

lemma splitPath_append_sep: "splitPath (a @ ''/'' @ b) = splitPath a @ splitPath b"
proof (induction a)
  case Nil
  then show ?case by simp
next
  case (Cons c a)
  then show ?case
    by (cases "splitPath a") (auto split: list.splits)
qed

lemma splitPath_no_sep: "CHR ''/'' \<notin> set x \<Longrightarrow> splitPath x = [x]"
  by (induction x) auto

lemma splitPath_elems: "x \<in> set (splitPath s) \<Longrightarrow> CHR ''/'' \<notin> set x"
proof (induction s arbitrary: x)
  case Nil
  then show ?case by simp
next
  case (Cons c s)
  then show ?case
    by (cases "splitPath s") (auto split: if_splits)
qed

lemma splitPath_joinPath_concat:
  "xs \<noteq> [] \<Longrightarrow> splitPath (joinPath xs) = concat (map splitPath xs)"
proof (induction xs rule: joinPath.induct)
  case 1
  then show ?case by simp
next
  case (2 x)
  then show ?case by simp
next
  case (3 x y ys)
  then show ?case using splitPath_append_sep [of x "joinPath (y # ys)"] by simp
qed

lemma splitPath_joinPath:
  "xs \<noteq> [] \<Longrightarrow> \<forall>x\<in>set xs. CHR ''/'' \<notin> set x \<Longrightarrow> splitPath (joinPath xs) = xs"
proof (induction xs rule: joinPath.induct)
  case 1
  then show ?case by simp
next
  case (2 x)
  then show ?case by (simp add: splitPath_no_sep)
next
  case (3 x y ys)
  then show ?case using splitPath_append_sep [of x "joinPath (y # ys)"]
    by (simp add: splitPath_no_sep)
qed


lemma cleanStep_plain: "plain c \<Longrightarrow> cleanStep r out c = out @ [c]"
  by (simp add: cleanStep_def plain_def)

lemma cleanStep_skip [simp]: "cleanStep r out [] = out" "cleanStep r out ''.'' = out"
  by (simp_all add: cleanStep_def)

lemma foldl_cleanStep_plain:
  "\<forall>c\<in>set cs. plain c \<Longrightarrow> foldl (cleanStep r) out cs = out @ cs"
  by (induction cs arbitrary: out) (simp_all add: cleanStep_plain)

lemma cleanStep_True_plain:
  "\<forall>c\<in>set out. plain c \<Longrightarrow> \<forall>c\<in>set (cleanStep True out x). plain c"
  by (auto simp: cleanStep_def plain_def dest: in_set_butlastD)

lemma foldl_cleanStep_True_plain:
  "\<forall>c\<in>set out. plain c \<Longrightarrow> \<forall>c\<in>set (foldl (cleanStep True) out cs). plain c"
proof (induction cs arbitrary: out)
  case Nil
  then show ?case by simp
next
  case (Cons x cs)
  from cleanStep_True_plain [OF Cons.prems] have "\<forall>c\<in>set (cleanStep True out x). plain c" .
  from Cons.IH [OF this] show ?case by simp
qed

lemma cleanElems_True_plain: "c \<in> set (cleanElems True cs) \<Longrightarrow> plain c"
  using foldl_cleanStep_True_plain [of "[]" cs] by (simp add: cleanElems_def)

lemma cleanStep_subset: "set (cleanStep r out x) \<subseteq> set out \<union> {x}"
  by (auto simp: cleanStep_def dest: in_set_butlastD)

lemma foldl_cleanStep_subset: "set (foldl (cleanStep r) out cs) \<subseteq> set out \<union> set cs"
proof (induction cs arbitrary: out)
  case Nil
  then show ?case by simp
next
  case (Cons x cs)
  show ?case using Cons.IH [of "cleanStep r out x"] cleanStep_subset [of r out x] by auto
qed

lemma cleanElems_subset: "set (cleanElems r cs) \<subseteq> set cs"
  using foldl_cleanStep_subset [of r "[]" cs] by (simp add: cleanElems_def)

lemma cleanStep_False_True:
  assumes "\<forall>c\<in>set out. plain c"
  shows "\<exists>k'. cleanStep False (replicate k ''..'' @ out) x = replicate k' ''..'' @ cleanStep True out x"
proof (cases "x = ''..''")
  case False
  then show ?thesis by (auto simp: cleanStep_def intro: exI [of _ k])
next
  case True
  show ?thesis
  proof (cases "out = []")
    case False
    with assms have "plain (last out)" by simp
    then have "last out \<noteq> ''..''" by (simp add: plain_def)
    with True False show ?thesis
      by (auto simp: cleanStep_def butlast_append intro: exI [of _ k])
  next
    case e: True
    have "replicate k ''..'' @ [''..''] = replicate (Suc k) ''..''"
      by (simp add: replicate_append_same)
    with True e show ?thesis
      by (cases k) (auto simp: cleanStep_def intro: exI [of _ "Suc k"])
  qed
qed

lemma foldl_cleanStep_False_True:
  assumes "\<forall>c\<in>set out. plain c"
  shows "\<exists>k'. foldl (cleanStep False) (replicate k ''..'' @ out) cs
           = replicate k' ''..'' @ foldl (cleanStep True) out cs"
  using assms
proof (induction cs arbitrary: out k)
  case Nil
  then show ?case by auto
next
  case (Cons x cs)
  from cleanStep_False_True [OF Cons.prems] obtain k' where
    k: "cleanStep False (replicate k ''..'' @ out) x = replicate k' ''..'' @ cleanStep True out x"
    by blast
  from cleanStep_True_plain [OF Cons.prems] have "\<forall>c\<in>set (cleanStep True out x). plain c" .
  from Cons.IH [OF this, of k'] k show ?case by simp
qed

lemma cleanElems_False_True:
  "\<exists>k. cleanElems False cs = replicate k ''..'' @ cleanElems True cs"
  using foldl_cleanStep_False_True [of "[]" 0 cs] by (simp add: cleanElems_def)

lemma foldl_cleanStep_True_dots:
  "foldl (cleanStep True) [] (replicate k ''..'' @ cs) = foldl (cleanStep True) [] cs"
  by (induction k) (simp_all add: cleanStep_def)

lemma cleanElems_True_idem:
  "cleanElems True (cleanElems True cs) = cleanElems True cs"
  using foldl_cleanStep_plain [of "cleanElems True cs" True "[]"] cleanElems_True_plain [of _ cs]
  by (simp add: cleanElems_def)

lemma resolve_Clean: "resolve (Clean s) = resolve s"
proof (cases "HasPrefix s ''/''")
  case True
  let ?out = "cleanElems True (splitPath s)"
  have ns: "\<forall>x\<in>set ?out. CHR ''/'' \<notin> set x"
    using cleanElems_subset [of True "splitPath s"] splitPath_elems by blast
  have c: "Clean s = ''/'' @ joinPath ?out" using True by (simp add: Clean_def)
  show ?thesis
  proof (cases "?out = []")
    case e: True
    then show ?thesis by (simp add: c resolve_def cleanElems_def)
  next
    case False
    with ns have "splitPath (joinPath ?out) = ?out" by (simp add: splitPath_joinPath)
    then have "splitPath (''/'' @ joinPath ?out) = [] # ?out" by simp
    then have "resolve (Clean s) = foldl (cleanStep True) [] ([] # ?out)"
      by (simp add: c resolve_def cleanElems_def)
    also have "\<dots> = cleanElems True ?out" by (simp add: cleanElems_def)
    finally show ?thesis by (simp add: cleanElems_True_idem resolve_def)
  qed
next
  case False
  let ?out = "cleanElems False (splitPath s)"
  let ?n = "cleanElems True (splitPath s)"
  obtain k where k: "?out = replicate k ''..'' @ ?n" using cleanElems_False_True by blast
  have ns: "\<forall>x\<in>set ?out. CHR ''/'' \<notin> set x"
    using cleanElems_subset [of False "splitPath s"] splitPath_elems by blast
  show ?thesis
  proof (cases "?out = []")
    case True
    with k have "?n = []" by simp
    moreover have "Clean s = ''.''" using False True by (simp add: Clean_def)
    ultimately show ?thesis by (simp add: resolve_def cleanElems_def)
  next
    case ne: False
    then have c: "Clean s = joinPath ?out" using False by (simp add: Clean_def)
    from ne ns have "splitPath (joinPath ?out) = ?out" by (simp add: splitPath_joinPath)
    then have "resolve (Clean s) = cleanElems True ?out" by (simp add: c resolve_def)
    also have "\<dots> = cleanElems True (replicate k ''..'' @ ?n)"
      by (subst k) (rule refl)
    also have "\<dots> = foldl (cleanStep True) [] (replicate k ''..'' @ ?n)"
      by (simp only: cleanElems_def)
    also have "\<dots> = cleanElems True ?n" by (simp only: foldl_cleanStep_True_dots cleanElems_def)
    finally show ?thesis by (simp add: cleanElems_True_idem resolve_def)
  qed
qed

lemma cleanElems_drop_empty:
  "cleanElems r (concat (map splitPath (dropWhile (\<lambda>e. e = []) es)))
   = cleanElems r (concat (map splitPath es))"
  by (induction es) (simp_all add: cleanElems_def)

lemma resolve_Join: "resolve (Join es) = cleanElems True (concat (map splitPath es))"
proof (cases "dropWhile (\<lambda>e. e = []) es")
  case Nil
  then have "Join es = []" unfolding Join_def by (simp only: list.case)
  moreover have "cleanElems True (concat (map splitPath es)) = cleanElems True []"
    using cleanElems_drop_empty [of True es] unfolding Nil by simp
  ultimately show ?thesis by (simp add: resolve_def cleanElems_def)
next
  case (Cons e es')
  then have "Join es = Clean (joinPath (e # es'))" unfolding Join_def by (simp only: list.case)
  then have "resolve (Join es) = resolve (joinPath (e # es'))" by (simp add: resolve_Clean)
  also have "\<dots> = cleanElems True (concat (map splitPath (e # es')))"
    unfolding resolve_def by (subst splitPath_joinPath_concat) simp_all
  also have "\<dots> = cleanElems True (concat (map splitPath es))"
    using cleanElems_drop_empty [of True es] unfolding Cons .
  finally show ?thesis .
qed

lemma resolve_Join2: "resolve (Join [a, b]) = foldl (cleanStep True) (resolve a) (splitPath b)"
  unfolding resolve_Join by (simp add: resolve_def cleanElems_def)

lemma resolve_Join_file:
  "plain x \<Longrightarrow> CHR ''/'' \<notin> set x \<Longrightarrow> resolve (Join [a, x]) = resolve a @ [x]"
  by (simp add: resolve_Join2 splitPath_no_sep cleanStep_plain)

lemma resolve_Join3_file:
  "plain x \<Longrightarrow> CHR ''/'' \<notin> set x \<Longrightarrow> resolve (Join [a, b, x]) = resolve (Join [a, b]) @ [x]"
  unfolding resolve_Join by (simp add: splitPath_no_sep cleanStep_plain cleanElems_def)

lemma plain_goal_md: "plain ''goal.md''" "CHR ''/'' \<notin> set ''goal.md''"
  by (simp_all add: plain_def)

section \<open>Facts about the file system, loading and saving\<close>

lemma map_sum_InrD: "map_sum f h x = Inr b \<Longrightarrow> \<exists>a. x = Inr a \<and> h a = b"
  by (cases x) auto

lemma walk_snoc:
  "walk fs (cs @ [x]) = Inr n \<Longrightarrow> \<exists>es. walk fs cs = Inr (Directory es) \<and> map_of es x = Some n"
proof (induction fs cs rule: walk.induct)
  case (1 n')
  then show ?case by (cases n') (auto split: option.splits)
next
  case (2 d c cs)
  then show ?case by simp
next
  case (3 es c cs)
  then show ?case by (auto split: option.splits)
qed

lemma walk_put_same:
  "cs \<noteq> [] \<Longrightarrow> walk fs (butlast cs) = Inr (Directory es) \<Longrightarrow> walk (put cs new fs) cs = Inr new"
proof (induction cs new fs arbitrary: es rule: put.induct)
  case (1 new n)
  then show ?case by simp
next
  case (2 c cs new d)
  then show ?case by (cases cs) auto
next
  case (3 c cs new es')
  show ?case
  proof (cases "cs = []")
    case True
    then show ?thesis by (simp add: update_conv')
  next
    case False
    with 3(2,3) obtain n where n: "map_of es' c = Some n" and w: "walk n (butlast cs) = Inr (Directory es)"
      by (auto split: option.splits)
    from "3.IH" [OF False n False w] have "walk (put cs new n) cs = Inr new" .
    with False n show ?thesis by (simp add: update_conv')
  qed
qed

lemma mkdirs_existing: "walk fs cs = Inr (Directory es) \<Longrightarrow> mkdirs cs fs = Inr fs"
proof (induction fs cs arbitrary: es rule: walk.induct)
  case (1 n)
  then show ?case by simp
next
  case (2 d c cs)
  then show ?case by simp
next
  case (3 es' c cs)
  then obtain n where n: "map_of es' c = Some n" and w: "walk n cs = Inr (Directory es)"
    by (auto split: option.splits)
  from "3.IH" [OF n w] have "mkdirs cs n = Inr n" .
  with n show ?case by (simp add: update_triv)
qed

lemma os_ReadFile_Inr:
  "os_ReadFile fs p = Inr d \<longleftrightarrow> walk fs (resolve p) = Inr (File d)"
  by (auto simp: os_ReadFile_def split: sum.splits fsnode.splits)

lemma SaveGoal_existing:
  assumes d: "walk fs (resolve (Join [GoalsDir s, Path g])) = Inr (Directory es)"
    and f: "map_of es ''goal.md'' = Some (File old)"
    and m: "SerializeFrontmatter Y (g\<lparr>Updated := now\<rparr>) = Inr content"
  shows "SaveGoal Y s now fs g =
     (None, g\<lparr>Updated := now, FilePath := Join [Join [GoalsDir s, Path g], ''goal.md'']\<rparr>,
      put (resolve (Join [GoalsDir s, Path g]) @ [''goal.md'']) (File content) fs)"
proof -
  let ?dir = "Join [GoalsDir s, Path g]"
  have mk: "os_MkdirAll fs ?dir = (None, fs)"
    using mkdirs_existing [OF d] by (simp add: os_MkdirAll_def)
  have r: "resolve (Join [?dir, ''goal.md'']) = resolve ?dir @ [''goal.md'']"
    by (rule resolve_Join_file) (simp_all add: plain_def)
  have wr: "os_WriteFile fs (Join [?dir, ''goal.md'']) content
      = (None, put (resolve ?dir @ [''goal.md'']) (File content) fs)"
    using d f by (simp add: os_WriteFile_def r)
  show ?thesis
    using mk m wr by (simp add: SaveGoal_def Let_def)
qed

lemma LoadGoal_Inr:
  assumes "LoadGoal Y s fs p = Inr g"
  shows "\<exists>data g0. walk fs (resolve (Join [GoalsDir s, p]) @ [''goal.md'']) = Inr (File data)
     \<and> ParseFrontmatter Y data = Inr g0
     \<and> g = g0\<lparr>Slug := Base p, Path := p, FilePath := Join [GoalsDir s, p, ''goal.md'']\<rparr>"
proof -
  have r: "resolve (Join [GoalsDir s, p, ''goal.md'']) = resolve (Join [GoalsDir s, p]) @ [''goal.md'']"
    by (rule resolve_Join3_file) (simp_all add: plain_def)
  from assms show ?thesis
    by (auto simp: LoadGoal_def Let_def os_ReadFile_Inr r split: sum.splits)
qed


section \<open>Frontmatter: the round trip\<close>

lemma HasPrefix_append [simp]: "HasPrefix (p @ b) p"
  by (simp add: HasPrefix_iff)







lemma isSpace_nl [simp]: "isSpace CHR 0x0A"
  by (simp add: isSpace_def)









section \<open>Moving a goal into itself or below itself\<close>

text \<open>
  Claim C8. When the new parent path is the goal's path, or is the goal's path followed by
  the separator and anything more, \<open>MoveGoal\<close> returns the error of the invalid move
  and the file system is the one it was given. The two moves named by the specification
  are refused.
\<close>

theorem MoveGoal_rejects_self_or_descendant:
  "newParentPath = goalPath \<or> (\<exists>rest. newParentPath = goalPath @ ''/'' @ rest)
   \<Longrightarrow> MoveGoal Y s now fs goalPath newParentPath
       = (Some (InvalidOperation ''cannot move a goal into itself or a descendant''), fs)"
  by (auto simp: MoveGoal_def Let_def HasPrefix_iff)

theorem MoveGoal_rejects_self_or_descendant_witness:
  "MoveGoal demoYaml exStore 7 exFamily ''parent'' ''parent/child''
     = (Some (InvalidOperation ''cannot move a goal into itself or a descendant''), exFamily)
   \<and> MoveGoal demoYaml exStore 7 exFamily ''parent/child'' ''parent/child''
     = (Some (InvalidOperation ''cannot move a goal into itself or a descendant''), exFamily)"
proof -
  have "\<exists>rest. ''parent/child'' = ''parent'' @ ''/'' @ rest" by simp
  then have 1: "MoveGoal demoYaml exStore 7 exFamily ''parent'' ''parent/child''
     = (Some (InvalidOperation ''cannot move a goal into itself or a descendant''), exFamily)"
    using MoveGoal_rejects_self_or_descendant [of "''parent/child''" "''parent''"] by blast
  have 2: "MoveGoal demoYaml exStore 7 exFamily ''parent/child'' ''parent/child''
     = (Some (InvalidOperation ''cannot move a goal into itself or a descendant''), exFamily)"
    using MoveGoal_rejects_self_or_descendant [of "''parent/child''" "''parent/child''"] by blast
  from 1 2 show ?thesis by blast
qed

section \<open>Toggling the status\<close>

text \<open>
  Claim C10. When the goal's file loads and parses, and the library encodes every goal,
  \<open>ToggleStatus\<close> succeeds; the status it returns is in-progress for incomplete,
  complete for in-progress and incomplete for every other string; nothing else of the goal
  changes but the time of the update (and the file location that saving stamps); and the
  goal's file then holds the serialization of the goal with the new status.
\<close>

theorem ToggleStatus_cycle:
  assumes ld: "LoadGoal Y s fs goalPath = Inr goal"
    and ma: "\<And>g'. \<exists>yb. yaml_Marshal Y g' = Inr yb"
  shows "\<exists>g fs' content. ToggleStatus Y s now fs goalPath = (Inr g, fs')
     \<and> (Status goal = StatusIncomplete \<longrightarrow> Status g = StatusInProgress)
     \<and> (Status goal = StatusInProgress \<longrightarrow> Status g = StatusComplete)
     \<and> (Status goal \<noteq> StatusIncomplete \<and> Status goal \<noteq> StatusInProgress
          \<longrightarrow> Status g = StatusIncomplete)
     \<and> g\<lparr>FilePath := FilePath goal\<rparr> = goal\<lparr>Status := Status g, Updated := now\<rparr>
     \<and> SerializeFrontmatter Y (goal\<lparr>Status := Status g, Updated := now\<rparr>) = Inr content
     \<and> os_ReadFile fs' (Join [GoalsDir s, goalPath, ''goal.md'']) = Inr content"
proof -
  let ?next = "if Status goal = StatusIncomplete then StatusInProgress
               else if Status goal = StatusInProgress then StatusComplete
               else StatusIncomplete"
  let ?g1 = "goal\<lparr>Status := ?next\<rparr>"
  let ?dir = "resolve (Join [GoalsDir s, goalPath])"
  from LoadGoal_Inr [OF ld] obtain data g0 where
    w: "walk fs (?dir @ [''goal.md'']) = Inr (File data)"
    and g: "goal = g0\<lparr>Slug := Base goalPath, Path := goalPath,
              FilePath := Join [GoalsDir s, goalPath, ''goal.md'']\<rparr>"
    by blast
  from walk_snoc [OF w] obtain es where d: "walk fs ?dir = Inr (Directory es)"
    and f: "map_of es ''goal.md'' = Some (File data)" by blast
  have p: "Path ?g1 = goalPath" using g by simp
  obtain yb where "yaml_Marshal Y (?g1\<lparr>Updated := now\<rparr>) = Inr yb" using ma by blast
  then obtain content where ser: "SerializeFrontmatter Y (?g1\<lparr>Updated := now\<rparr>) = Inr content"
    by (simp add: SerializeFrontmatter_def)
  from d p have d': "walk fs (resolve (Join [GoalsDir s, Path ?g1])) = Inr (Directory es)"
    by simp
  note sv = SaveGoal_existing [OF d' f ser]
  let ?fs' = "put (?dir @ [''goal.md'']) (File content) fs"
  let ?g = "?g1\<lparr>Updated := now, FilePath := Join [Join [GoalsDir s, Path ?g1], ''goal.md'']\<rparr>"
  have t: "ToggleStatus Y s now fs goalPath = (Inr ?g, ?fs')"
    using ld sv p unfolding ToggleStatus_def Let_def by (simp split: if_splits)
  have r: "resolve (Join [GoalsDir s, goalPath, ''goal.md'']) = ?dir @ [''goal.md'']"
    by (rule resolve_Join3_file) (simp_all add: plain_def)
  have "walk ?fs' (?dir @ [''goal.md'']) = Inr (File content)"
    by (rule walk_put_same [where es = es]) (simp_all add: d)
  then have rd: "os_ReadFile ?fs' (Join [GoalsDir s, goalPath, ''goal.md'']) = Inr content"
    by (simp add: os_ReadFile_def r)
  have st: "Status ?g = ?next" by simp
  have eq: "?g\<lparr>FilePath := FilePath goal\<rparr> = goal\<lparr>Status := Status ?g, Updated := now\<rparr>"
    by simp
  have ser': "SerializeFrontmatter Y (goal\<lparr>Status := Status ?g, Updated := now\<rparr>) = Inr content"
    using ser by simp
  have c1: "Status goal = StatusIncomplete \<longrightarrow> Status ?g = StatusInProgress" by simp
  have c2: "Status goal = StatusInProgress \<longrightarrow> Status ?g = StatusComplete"
    by (simp add: StatusIncomplete_def StatusInProgress_def)
  have c3: "Status goal \<noteq> StatusIncomplete \<and> Status goal \<noteq> StatusInProgress
          \<longrightarrow> Status ?g = StatusIncomplete" by simp
  from t c1 c2 c3 eq ser' rd show ?thesis by blast
qed

theorem ToggleStatus_cycle_witness:
  "\<exists>g fs'. ToggleStatus demoYaml exStore 7 exOne ''test'' = (Inr g, fs')
     \<and> Status g = StatusInProgress
     \<and> os_ReadFile fs' (Join [GoalsDir exStore, ''test'', ''goal.md''])
         = Inr ''---\<newline>title: test\<newline>status: in-progress\<newline>---\<newline>''"
proof -
  have "map_sum id (\<lambda>g. (Title g, Status g, Horizon g, ChildrenOrder g, Body g))
          (LoadGoal demoYaml exStore exOne ''test'')
        = Inr (''test'', ''incomplete'', [], [], [])"
    by code_simp
  then obtain goal where ld: "LoadGoal demoYaml exStore exOne ''test'' = Inr goal"
    and fl: "Title goal = ''test''" "Status goal = ''incomplete''" "Horizon goal = []"
      "ChildrenOrder goal = []" "Body goal = []"
    by (auto dest!: map_sum_InrD)
  have ma: "\<And>g'. \<exists>yb. yaml_Marshal demoYaml g' = Inr yb"
    by (simp add: demoYaml_def demoMarshal_def)
  from ToggleStatus_cycle [OF ld ma, of 7] obtain g fs' content where
    t: "ToggleStatus demoYaml exStore 7 exOne ''test'' = (Inr g, fs')"
    and s: "Status goal = StatusIncomplete \<longrightarrow> Status g = StatusInProgress"
    and c: "SerializeFrontmatter demoYaml (goal\<lparr>Status := Status g, Updated := 7\<rparr>) = Inr content"
    and r: "os_ReadFile fs' (Join [GoalsDir exStore, ''test'', ''goal.md'']) = Inr content"
    by blast
  from s fl have sg: "Status g = StatusInProgress" by (simp add: StatusIncomplete_def)
  from c fl sg have "content = ''---\<newline>title: test\<newline>status: in-progress\<newline>---\<newline>''"
    by (simp add: SerializeFrontmatter_def demoYaml_def demoMarshal_def TrimRight_def
        frontmatterDelimiter_def StatusInProgress_def)
  with t sg r show ?thesis by simp
qed

section \<open>Two notes on one day\<close>
















section \<open>Moving a goal: the order hints\<close>

text \<open>
  \<open>addToChildrenOrder\<close> looks for the slug in the merged sibling order, which lists
  every directory of the parent. Once the goal's directory stands below the parent it is
  therefore always found, and nothing is written.
\<close>

lemma mergeOrder_complete: "set dirNames \<subseteq> set (mergeOrder hint dirNames)"
  by (auto simp: mergeOrder_eq)

lemma addToChildrenOrder_existing_directory:
  assumes "os_ReadDir fs (if parentPath = [] then GoalsDir s else Join [GoalsDir s, parentPath]) = Inr entries"
    and "(slug, True) \<in> set entries"
  shows "addToChildrenOrder Y s now fs parentPath slug = fs"
proof -
  let ?order = "if parentPath = [] then hintOfTop Y s fs
                else (case LoadGoal Y s fs parentPath of Inl e \<Rightarrow> [] | Inr goal \<Rightarrow> ChildrenOrder goal)"
  have g: "getSiblingOrder Y s fs parentPath = Inr (mergeOrder ?order (map fst (filter snd entries)))"
    using assms(1) by (simp add: getSiblingOrder_def Let_def)
  from assms(2) have "slug \<in> set (map fst (filter snd entries))" by force
  with mergeOrder_complete have "slug \<in> set (mergeOrder ?order (map fst (filter snd entries)))"
    by blast
  then have "list_ex (\<lambda>name. name = slug) (mergeOrder ?order (map fst (filter snd entries)))"
    by (auto simp: list_ex_iff)
  with g show ?thesis by (simp add: addToChildrenOrder_def)
qed

text \<open>
  Claim C5, on the move of the top-level goal \<open>m\<close> below \<open>alpha\<close>, which has the
  children \<open>a\<close> and \<open>z\<close> and no hint. The move succeeds and the slug leaves the hint of
  the old parent (the top level, whose hint becomes \<open>alpha\<close>). The file of the new
  parent is not written: its hint stays empty, and \<open>m\<close> is ordered between \<open>a\<close> and
  \<open>z\<close>, not last.
\<close>

theorem MoveGoal_new_parent_hint_not_written:
  "fst (MoveGoal demoYaml exStore 7 exMove ''m'' ''alpha'') = None
   \<and> os_ReadFile (snd (MoveGoal demoYaml exStore 7 exMove ''m'' ''alpha'')) ''/data/goals/alpha/goal.md''
        = os_ReadFile exMove ''/data/goals/alpha/goal.md''
   \<and> map_sum id ChildrenOrder
        (LoadGoal demoYaml exStore (snd (MoveGoal demoYaml exStore 7 exMove ''m'' ''alpha'')) ''alpha'')
        = Inr []
   \<and> getSiblingOrder demoYaml exStore (snd (MoveGoal demoYaml exStore 7 exMove ''m'' ''alpha'')) ''alpha''
        = Inr [''a'', ''m'', ''z'']
   \<and> hintOfTop demoYaml exStore (snd (MoveGoal demoYaml exStore 7 exMove ''m'' ''alpha''))
        = [''alpha'']"
  by code_simp

section \<open>The search: which rows match\<close>






section \<open>The search: ancestors, retention and headers\<close>













section \<open>The watcher after cleanup\<close>







end
